theory Spec2Isabelle
  imports Main "HOL-Library.Word"
begin

section \<open>The DMA transfer controller (main.c of the ZCU102 hardware project)\<close>

text \<open>
  The program is one C function, \<open>main\<close>: it looks the DMA engine up, initialises it,
  copies the image table into \<open>TxBuffer\<close>, flushes the data cache over the buffer and
  then repeats for ever: start a memory-to-device transfer, poll the engine at most
  \<open>POLL_TIMEOUT_COUNTER\<close> times, stop with \<open>XST_FAILURE\<close> on a rejected start or on a
  timeout.

  The driver and the hardware are outside the program. Their answers are the fields of
  the record \<open>hw\<close>; every call of the program to them, and every \<open>xil_printf\<close>, is
  recorded, in order, in the field \<open>trace\<close> of the program state.
\<close>

subsection \<open>Constants\<close>

definition IMG_LENGTH :: nat where
  "IMG_LENGTH = 173056"

definition POLL_TIMEOUT_COUNTER :: nat where
  "POLL_TIMEOUT_COUNTER = 1000000"

text \<open>
  Modelled from the spec: the status codes of \<open>xstatus.h\<close>, a header that is not among
  the sources. The success code is 0; \<open>XST_FAILURE\<close> is the general failure code of the
  driver library, 1. The program only compares a status with \<open>XST_SUCCESS\<close> and only
  returns \<open>XST_FAILURE\<close>.
\<close>

definition XST_SUCCESS :: "32 word" where
  "XST_SUCCESS = 0"

definition XST_FAILURE :: "32 word" where
  "XST_FAILURE = 1"

text \<open>The transfer directions of \<open>xaxidma.h\<close>; the program only uses the first.\<close>

datatype direction = XAXIDMA_DMA_TO_DEVICE | XAXIDMA_DEVICE_TO_DMA

subsection \<open>The environment\<close>

text \<open>
  What the program receives from outside. \<open>hex_values\<close> is the image table of
  \<open>img2.h\<close> (not among the sources), read by index. \<open>TxBuffer_addr\<close> is the address
  the linker gives \<open>TxBuffer\<close>. \<open>SimpleTransfer_status k\<close> is the status of the
  \<open>k\<close>-th call of \<open>XAxiDma_SimpleTransfer\<close> (counted from 0), and
  \<open>Busy_result k j\<close> the value of the \<open>j\<close>-th call of \<open>XAxiDma_Busy\<close> after that
  start; as in C, a non-zero value means busy.
\<close>

record hw =
  DMA_DEV_ID :: "32 word"
  LookupConfig_result :: "64 word"
  CfgInitialize_status :: "32 word"
  SimpleTransfer_status :: "nat \<Rightarrow> 32 word"
  Busy_result :: "nat \<Rightarrow> nat \<Rightarrow> 32 word"
  hex_values :: "nat \<Rightarrow> 32 word"
  TxBuffer_addr :: "64 word"

subsection \<open>Events and program state\<close>

text \<open>
  One constructor for each external function the program calls, with the arguments of
  the call. The two calls that hand the buffer over to the hardware also carry the
  contents of the addressed range at the moment of the call.
\<close>

datatype event =
    Printf string "32 word list"
  | LookupConfig "32 word"
  | CfgInitialize "64 word"
  | DCacheFlushRange "64 word" "64 word" "32 word list"
  | SimpleTransfer "64 word" "32 word" direction "32 word list"
  | Busy direction
  | Usleep "32 word"

record state =
  TxBuffer :: "32 word list"
  DMA_Cfg :: "64 word"
  trace :: "event list"

text \<open>Objects of static storage duration start out zeroed.\<close>

definition init_state :: state where
  "init_state = \<lparr>TxBuffer = replicate IMG_LENGTH 0, DMA_Cfg = 0, trace = []\<rparr>"

definition emit :: "event \<Rightarrow> state \<Rightarrow> state" where
  "emit e s = s\<lparr>trace := trace s @ [e]\<rparr>"

subsection \<open>The messages\<close>

definition msg_welcome :: string where
  "msg_welcome = ''Welcome from the main function'' @ [CHR 0x0A]"

definition msg_lookup_failed :: string where
  "msg_lookup_failed = ''DMA config lookup failed'' @ [CHR 0x0A]"

definition msg_init_failed :: string where
  "msg_init_failed = ''DMA init failed - %x'' @ [CHR 0x0A]"

definition msg_init_success :: string where
  "msg_init_success = ''DMA init success - %x'' @ [CHR 0x0A]"

definition msg_transfer_failed :: string where
  "msg_transfer_failed = ''DMA transfer failed - %x'' @ [CHR 0x0A]"

definition msg_completed :: string where
  "msg_completed = ''DMA transfer completed successfully'' @ [CHR 0x0A]"

definition msg_timed_out :: string where
  "msg_timed_out = ''DMA transfer timed out'' @ [CHR 0x0A]"

definition msg_image_sent :: string where
  "msg_image_sent = ''Image sent via DMA successfully'' @ [CHR 0x0A]"

subsection \<open>The copy loop (lines 49 to 51)\<close>

text \<open>
  \<^verbatim>\<open>for (int i = 0; i < IMG_LENGTH; i++) { TxBuffer[i] = hex_values[i]; }\<close>
  The counter stays between 0 and \<open>IMG_LENGTH\<close>, so it is a natural number here.
\<close>

function copy_loop :: "nat \<Rightarrow> hw \<Rightarrow> state \<Rightarrow> state" where
  "copy_loop i h s =
     (if i < IMG_LENGTH
      then copy_loop (i + 1) h (s\<lparr>TxBuffer := (TxBuffer s)[i := hex_values h i]\<rparr>)
      else s)"
  by pat_completeness auto
termination
  by (relation "measure (\<lambda>(i, h, s). IMG_LENGTH - i)") auto

declare copy_loop.simps [simp del]

subsection \<open>The poll loop (lines 65 to 73)\<close>

text \<open>
  \<^verbatim>\<open>while (TimeOut) { if (!XAxiDma_Busy(..)) { xil_printf(..); break; } TimeOut--; usleep(1U); }\<close>
  The first argument is \<open>TimeOut\<close>, which starts at \<open>POLL_TIMEOUT_COUNTER\<close> and only
  counts down to 0; the result is its value when the loop is left. \<open>k\<close> numbers the
  transfer and \<open>j\<close> the busy checks made for it so far.
\<close>

fun poll :: "nat \<Rightarrow> hw \<Rightarrow> nat \<Rightarrow> nat \<Rightarrow> state \<Rightarrow> nat \<times> state" where
  "poll 0 h k j s = (0, s)"
| "poll (Suc t) h k j s =
     (let s1 = emit (Busy XAXIDMA_DMA_TO_DEVICE) s in
      if Busy_result h k j = 0
      then (Suc t, emit (Printf msg_completed []) s1)
      else poll t h k (j + 1) (emit (Usleep 1) s1))"

subsection \<open>One pass through the body of the service loop (lines 56 to 80)\<close>

text \<open>
  The result is \<open>Some c\<close> when the pass executes \<open>return c\<close>, and \<open>None\<close> when it
  reaches the end of the body, from where \<open>while(1)\<close> starts the next pass.
\<close>

definition transfer_length :: "32 word" where
  "transfer_length = of_nat IMG_LENGTH * 4"

definition attempt :: "hw \<Rightarrow> nat \<Rightarrow> state \<Rightarrow> 32 word option \<times> state" where
  "attempt h k s =
     (let status = SimpleTransfer_status h k;
          s1 = emit (SimpleTransfer (TxBuffer_addr h) transfer_length
                       XAXIDMA_DMA_TO_DEVICE (TxBuffer s)) s
      in if status \<noteq> XST_SUCCESS
         then (Some XST_FAILURE, emit (Printf msg_transfer_failed [status]) s1)
         else
           (case poll POLL_TIMEOUT_COUNTER h k 0 s1 of
              (TimeOut, s2) \<Rightarrow>
                if TimeOut = 0
                then (Some XST_FAILURE, emit (Printf msg_timed_out []) s2)
                else (None, emit (Printf msg_image_sent []) s2)))"

subsection \<open>The service loop (lines 55 to 81) and main\<close>

text \<open>
  \<open>while(1)\<close> has no exit but the two \<open>return\<close> statements of its body, so it may run
  for ever. The first argument bounds the number of passes that are followed; when the
  bound is reached with the loop still running, the result is \<open>None\<close> together with
  the state reached so far. \<open>k\<close> counts the passes already made.
\<close>

fun service_loop :: "nat \<Rightarrow> hw \<Rightarrow> nat \<Rightarrow> state \<Rightarrow> 32 word option \<times> state" where
  "service_loop 0 h k s = (None, s)"
| "service_loop (Suc n) h k s =
     (case attempt h k s of
        (Some c, s') \<Rightarrow> (Some c, s')
      | (None, s') \<Rightarrow> service_loop n h (k + 1) s')"

text \<open>
  The idle loop and \<open>return 0\<close> of lines 83 to 87 follow a loop that has no exit, so no
  path of \<open>main\<close> leads to them.
\<close>

definition flush_length :: "64 word" where
  "flush_length = of_nat IMG_LENGTH * 4"

definition main :: "nat \<Rightarrow> hw \<Rightarrow> 32 word option \<times> state" where
  "main n h =
     (let s0 = emit (Printf msg_welcome []) init_state;
          s1 = (emit (LookupConfig (DMA_DEV_ID h)) s0)\<lparr>DMA_Cfg := LookupConfig_result h\<rparr>
      in if DMA_Cfg s1 = 0
         then (Some XST_FAILURE, emit (Printf msg_lookup_failed []) s1)
         else
           (let status = CfgInitialize_status h;
                s2 = emit (CfgInitialize (DMA_Cfg s1)) s1
            in if status \<noteq> XST_SUCCESS
               then (Some XST_FAILURE, emit (Printf msg_init_failed [status]) s2)
               else
                 (let s3 = emit (Printf msg_init_success [status]) s2;
                      s4 = copy_loop 0 h s3;
                      s5 = emit (DCacheFlushRange (TxBuffer_addr h) flush_length
                                   (TxBuffer s4)) s4
                  in service_loop n h 0 s5)))"

subsection \<open>Auxiliary definitions for the statements\<close>

text \<open>
  The events a pass through the service loop can add to the trace when it starts from a
  state whose buffer holds \<open>p\<close>: a print, a busy check, a wait, or a transfer start
  with the arguments of line 57.
\<close>

fun loop_event :: "hw \<Rightarrow> 32 word list \<Rightarrow> event \<Rightarrow> bool" where
  "loop_event h p (SimpleTransfer a l d q) =
     (a = TxBuffer_addr h \<and> l = transfer_length \<and> d = XAXIDMA_DMA_TO_DEVICE \<and> q = p)"
| "loop_event h p (Printf m xs) = True"
| "loop_event h p (Busy d) = True"
| "loop_event h p (Usleep u) = True"
| "loop_event h p (LookupConfig i) = False"
| "loop_event h p (CfgInitialize c) = False"
| "loop_event h p (DCacheFlushRange a l q) = False"

text \<open>
  The state in which the service loop is entered when the lookup and the initialisation
  have succeeded (lines 31 to 54 executed).
\<close>

definition ready_state :: "hw \<Rightarrow> state" where
  "ready_state h =
     \<lparr>TxBuffer = map (hex_values h) [0..<IMG_LENGTH],
      DMA_Cfg = LookupConfig_result h,
      trace = [Printf msg_welcome [], LookupConfig (DMA_DEV_ID h),
               CfgInitialize (LookupConfig_result h),
               Printf msg_init_success [XST_SUCCESS],
               DCacheFlushRange (TxBuffer_addr h) flush_length
                 (map (hex_values h) [0..<IMG_LENGTH])]\<rparr>"

text \<open>
  An example environment: the engine is found and initialised, accepts every transfer
  and then stays busy for ever; the image table holds its own indices.
\<close>

definition hw_stuck :: hw where
  "hw_stuck =
     \<lparr>DMA_DEV_ID = 0, LookupConfig_result = 0x1000, CfgInitialize_status = 0,
      SimpleTransfer_status = (\<lambda>k. 0), Busy_result = (\<lambda>k j. 1),
      hex_values = (\<lambda>i. of_nat i), TxBuffer_addr = 0x1100000\<rparr>"

section \<open>Properties\<close>

subsection \<open>Auxiliary lemmas\<close>

lemma copy_loop_trace: "trace (copy_loop i h s) = trace s"
proof (induction i h s rule: copy_loop.induct)
  case (1 i h s)
  then show ?case by (subst copy_loop.simps) simp
qed

lemma copy_loop_DMA_Cfg: "DMA_Cfg (copy_loop i h s) = DMA_Cfg s"
proof (induction i h s rule: copy_loop.induct)
  case (1 i h s)
  then show ?case by (subst copy_loop.simps) simp
qed

lemma take_Suc_update:
  "i < length xs \<Longrightarrow> take (Suc i) (xs[i := v]) = take i xs @ [v]"
  by (simp add: take_Suc_conv_app_nth)

lemma copy_loop_TxBuffer:
  "length (TxBuffer s) = IMG_LENGTH \<Longrightarrow> i \<le> IMG_LENGTH \<Longrightarrow>
   TxBuffer (copy_loop i h s) = take i (TxBuffer s) @ map (hex_values h) [i..<IMG_LENGTH]"
proof (induction i h s rule: copy_loop.induct)
  case (1 i h s)
  show ?case
  proof (cases "i < IMG_LENGTH")
    case True
    let ?s' = "s\<lparr>TxBuffer := (TxBuffer s)[i := hex_values h i]\<rparr>"
    have "TxBuffer (copy_loop i h s) = TxBuffer (copy_loop (i + 1) h ?s')"
      using True by (subst copy_loop.simps) simp
    also have "\<dots> = take (i + 1) (TxBuffer ?s') @ map (hex_values h) [i + 1..<IMG_LENGTH]"
      using "1.IH" [OF True] True "1.prems" by simp
    also have "\<dots> = take i (TxBuffer s) @ map (hex_values h) [i..<IMG_LENGTH]"
      using True "1.prems" by (simp add: take_Suc_update upt_conv_Cons)
    finally show ?thesis .
  next
    case False
    then have "i = IMG_LENGTH" using "1.prems" by simp
    then show ?thesis using "1.prems" by (subst copy_loop.simps) simp
  qed
qed

lemma copy_loop_populates:
  "length (TxBuffer s) = IMG_LENGTH \<Longrightarrow>
   TxBuffer (copy_loop 0 h s) = map (hex_values h) [0..<IMG_LENGTH]"
  using copy_loop_TxBuffer [of s 0 h] by simp

lemma poll_all_busy:
  "\<forall>i<t. Busy_result h k (j + i) \<noteq> 0 \<Longrightarrow>
   poll t h k j s =
     (0, s\<lparr>trace := trace s @ concat (replicate t [Busy XAXIDMA_DMA_TO_DEVICE, Usleep 1])\<rparr>)"
proof (induction t arbitrary: j s)
  case 0
  then show ?case by simp
next
  case (Suc t)
  from Suc.prems have now: "Busy_result h k j \<noteq> 0" by force
  have later: "\<forall>i<t. Busy_result h k ((j + 1) + i) \<noteq> 0"
  proof (intro allI impI)
    fix i assume "i < t"
    then have "Suc i < Suc t" by simp
    with Suc.prems have "Busy_result h k (j + Suc i) \<noteq> 0" by blast
    then show "Busy_result h k ((j + 1) + i) \<noteq> 0" by simp
  qed
  show ?case using now Suc.IH [OF later] by (simp add: emit_def)
qed

lemma poll_first_idle:
  "j0 < t \<Longrightarrow> Busy_result h k (j + j0) = 0 \<Longrightarrow> \<forall>i<j0. Busy_result h k (j + i) \<noteq> 0 \<Longrightarrow>
   poll t h k j s =
     (t - j0, s\<lparr>trace := trace s @ concat (replicate j0 [Busy XAXIDMA_DMA_TO_DEVICE, Usleep 1])
                        @ [Busy XAXIDMA_DMA_TO_DEVICE, Printf msg_completed []]\<rparr>)"
proof (induction t arbitrary: j j0 s)
  case 0
  then show ?case by simp
next
  case (Suc t)
  show ?case
  proof (cases j0)
    case 0
    with Suc.prems show ?thesis by (simp add: emit_def)
  next
    case (Suc m)
    with Suc.prems have now: "Busy_result h k j \<noteq> 0" by force
    have lt: "m < t" using Suc Suc.prems by simp
    have idle: "Busy_result h k ((j + 1) + m) = 0" using Suc Suc.prems by simp
    have later: "\<forall>i<m. Busy_result h k ((j + 1) + i) \<noteq> 0"
    proof (intro allI impI)
      fix i assume "i < m"
      then have "Suc i < j0" using Suc by simp
      with Suc.prems have "Busy_result h k (j + Suc i) \<noteq> 0" by blast
      then show "Busy_result h k ((j + 1) + i) \<noteq> 0" by simp
    qed
    show ?thesis using now Suc Suc.IH [OF lt idle later] by (simp add: emit_def)
  qed
qed

lemma poll_TxBuffer: "TxBuffer (snd (poll t h k j s)) = TxBuffer s"
  by (induction t arbitrary: j s) (simp_all add: emit_def Let_def)

lemma poll_DMA_Cfg: "DMA_Cfg (snd (poll t h k j s)) = DMA_Cfg s"
  by (induction t arbitrary: j s) (simp_all add: emit_def Let_def)

lemma poll_trace:
  "\<exists>post. trace (snd (poll t h k j s)) = trace s @ post \<and> (\<forall>e\<in>set post. loop_event h p e)"
proof (induction t arbitrary: j s)
  case 0
  then show ?case by simp
next
  case (Suc t)
  let ?s1 = "emit (Busy XAXIDMA_DMA_TO_DEVICE) s"
  show ?case
  proof (cases "Busy_result h k j = 0")
    case True
    then have "trace (snd (poll (Suc t) h k j s)) =
        trace s @ [Busy XAXIDMA_DMA_TO_DEVICE, Printf msg_completed []]"
      by (simp add: emit_def)
    then show ?thesis by force
  next
    case False
    from Suc.IH [of "j + 1" "emit (Usleep 1) ?s1"] obtain post where
      post: "trace (snd (poll t h k (j + 1) (emit (Usleep 1) ?s1))) = trace (emit (Usleep 1) ?s1) @ post"
        "\<forall>e\<in>set post. loop_event h p e" by blast
    from False post(1) have "trace (snd (poll (Suc t) h k j s)) =
        trace s @ ([Busy XAXIDMA_DMA_TO_DEVICE, Usleep 1] @ post)"
      by (simp add: emit_def)
    moreover have "\<forall>e\<in>set ([Busy XAXIDMA_DMA_TO_DEVICE, Usleep 1] @ post). loop_event h p e"
      using post(2) by simp
    ultimately show ?thesis by blast
  qed
qed

lemma poll_timeout_iff:
  "fst (poll t h k j s) = 0 \<longleftrightarrow> (\<forall>i<t. Busy_result h k (j + i) \<noteq> 0)"
proof (induction t arbitrary: j s)
  case 0
  then show ?case by simp
next
  case (Suc t)
  show ?case
  proof (cases "Busy_result h k j = 0")
    case True
    then have "fst (poll (Suc t) h k j s) = Suc t" by simp
    moreover from True have "\<not> (\<forall>i<Suc t. Busy_result h k (j + i) \<noteq> 0)" by force
    ultimately show ?thesis by simp
  next
    case False
    then have "fst (poll (Suc t) h k j s) = 0 \<longleftrightarrow> (\<forall>i<t. Busy_result h k (j + 1 + i) \<noteq> 0)"
      using Suc.IH [of "j + 1"] by (simp add: Let_def)
    also have "\<dots> \<longleftrightarrow> (\<forall>i<Suc t. Busy_result h k (j + i) \<noteq> 0)"
    proof
      assume a: "\<forall>i<t. Busy_result h k (j + 1 + i) \<noteq> 0"
      show "\<forall>i<Suc t. Busy_result h k (j + i) \<noteq> 0"
      proof (intro allI impI)
        fix i assume "i < Suc t"
        show "Busy_result h k (j + i) \<noteq> 0"
        proof (cases i)
          case 0 then show ?thesis using False by simp
        next
          case (Suc m)
          with \<open>i < Suc t\<close> a have "Busy_result h k (j + 1 + m) \<noteq> 0" by simp
          then show ?thesis using Suc by simp
        qed
      qed
    next
      assume a: "\<forall>i<Suc t. Busy_result h k (j + i) \<noteq> 0"
      show "\<forall>i<t. Busy_result h k (j + 1 + i) \<noteq> 0"
      proof (intro allI impI)
        fix i assume "i < t"
        then have "Suc i < Suc t" by simp
        with a have "Busy_result h k (j + Suc i) \<noteq> 0" by blast
        then show "Busy_result h k (j + 1 + i) \<noteq> 0" by simp
      qed
    qed
    finally show ?thesis .
  qed
qed

lemma attempt_rejected:
  "SimpleTransfer_status h k \<noteq> XST_SUCCESS \<Longrightarrow>
   attempt h k s =
     (Some XST_FAILURE,
      s\<lparr>trace := trace s @
         [SimpleTransfer (TxBuffer_addr h) transfer_length XAXIDMA_DMA_TO_DEVICE (TxBuffer s),
          Printf msg_transfer_failed [SimpleTransfer_status h k]]\<rparr>)"
  by (simp add: attempt_def emit_def)

lemma attempt_timeout:
  "SimpleTransfer_status h k = XST_SUCCESS \<Longrightarrow>
   \<forall>j<POLL_TIMEOUT_COUNTER. Busy_result h k j \<noteq> 0 \<Longrightarrow>
   attempt h k s =
     (Some XST_FAILURE,
      s\<lparr>trace := trace s @
         [SimpleTransfer (TxBuffer_addr h) transfer_length XAXIDMA_DMA_TO_DEVICE (TxBuffer s)] @
         concat (replicate POLL_TIMEOUT_COUNTER [Busy XAXIDMA_DMA_TO_DEVICE, Usleep 1]) @
         [Printf msg_timed_out []]\<rparr>)"
  using poll_all_busy [of POLL_TIMEOUT_COUNTER h k 0]
  by (simp add: attempt_def emit_def)

lemma attempt_completed:
  "SimpleTransfer_status h k = XST_SUCCESS \<Longrightarrow> j0 < POLL_TIMEOUT_COUNTER \<Longrightarrow>
   Busy_result h k j0 = 0 \<Longrightarrow> \<forall>j<j0. Busy_result h k j \<noteq> 0 \<Longrightarrow>
   attempt h k s =
     (None,
      s\<lparr>trace := trace s @
         [SimpleTransfer (TxBuffer_addr h) transfer_length XAXIDMA_DMA_TO_DEVICE (TxBuffer s)] @
         concat (replicate j0 [Busy XAXIDMA_DMA_TO_DEVICE, Usleep 1]) @
         [Busy XAXIDMA_DMA_TO_DEVICE, Printf msg_completed [], Printf msg_image_sent []]\<rparr>)"
  using poll_first_idle [of j0 POLL_TIMEOUT_COUNTER h k 0]
  by (simp add: attempt_def emit_def)

lemma attempt_TxBuffer: "TxBuffer (snd (attempt h k s)) = TxBuffer s"
proof -
  let ?s1 = "emit (SimpleTransfer (TxBuffer_addr h) transfer_length
                XAXIDMA_DMA_TO_DEVICE (TxBuffer s)) s"
  have "TxBuffer (snd (poll POLL_TIMEOUT_COUNTER h k 0 ?s1)) = TxBuffer s"
    by (simp add: poll_TxBuffer emit_def)
  then show ?thesis
    by (cases "poll POLL_TIMEOUT_COUNTER h k 0 ?s1") (simp add: attempt_def Let_def emit_def)
qed

lemma attempt_code: "fst (attempt h k s) = Some c \<Longrightarrow> c = XST_FAILURE"
  by (auto simp: attempt_def Let_def split: if_splits prod.splits)

lemma attempt_trace:
  "\<exists>post. trace (snd (attempt h k s)) = trace s @ post \<and>
          (\<forall>e\<in>set post. loop_event h (TxBuffer s) e)"
proof -
  let ?st = "SimpleTransfer (TxBuffer_addr h) transfer_length XAXIDMA_DMA_TO_DEVICE (TxBuffer s)"
  let ?s1 = "emit ?st s"
  show ?thesis
  proof (cases "SimpleTransfer_status h k = XST_SUCCESS")
    case False
    then have "trace (snd (attempt h k s)) =
        trace s @ [?st, Printf msg_transfer_failed [SimpleTransfer_status h k]]"
      by (simp add: attempt_rejected)
    moreover have "\<forall>e\<in>set [?st, Printf msg_transfer_failed [SimpleTransfer_status h k]].
        loop_event h (TxBuffer s) e" by simp
    ultimately show ?thesis by blast
  next
    case True
    obtain post where post: "trace (snd (poll POLL_TIMEOUT_COUNTER h k 0 ?s1)) = trace ?s1 @ post"
      "\<forall>e\<in>set post. loop_event h (TxBuffer s) e"
      using poll_trace [of POLL_TIMEOUT_COUNTER h k 0 ?s1 "TxBuffer s"] by blast
    obtain t s2 where p: "poll POLL_TIMEOUT_COUNTER h k 0 ?s1 = (t, s2)" by force
    have "\<exists>m. trace (snd (attempt h k s)) = trace s @ ([?st] @ post @ [Printf m []])"
      using True p post(1) by (simp add: attempt_def Let_def emit_def)
    then obtain m where "trace (snd (attempt h k s)) = trace s @ ([?st] @ post @ [Printf m []])" ..
    moreover have "\<forall>e\<in>set ([?st] @ post @ [Printf m []]). loop_event h (TxBuffer s) e"
      using post(2) by simp
    ultimately show ?thesis by blast
  qed
qed

lemma service_loop_TxBuffer: "TxBuffer (snd (service_loop n h k s)) = TxBuffer s"
proof (induction n arbitrary: k s)
  case 0
  then show ?case by simp
next
  case (Suc n)
  obtain r s' where a: "attempt h k s = (r, s')" by force
  then have "TxBuffer s' = TxBuffer s" using attempt_TxBuffer [of h k s] by simp
  with a Suc.IH [of "k + 1" s'] show ?case by (cases r) simp_all
qed

lemma service_loop_code: "fst (service_loop n h k s) = Some c \<Longrightarrow> c = XST_FAILURE"
proof (induction n arbitrary: k s)
  case 0
  then show ?case by simp
next
  case (Suc n)
  obtain r s' where a: "attempt h k s = (r, s')" by force
  show ?case
  proof (cases r)
    case None
    with a Suc.prems have "fst (service_loop n h (k + 1) s') = Some c" by simp
    then show ?thesis by (rule Suc.IH)
  next
    case (Some d)
    with a Suc.prems have "d = c" by simp
    moreover from a Some have "d = XST_FAILURE" using attempt_code [of h k s d] by simp
    ultimately show ?thesis by simp
  qed
qed

lemma service_loop_trace:
  "\<exists>post. trace (snd (service_loop n h k s)) = trace s @ post \<and>
          (\<forall>e\<in>set post. loop_event h (TxBuffer s) e)"
proof (induction n arbitrary: k s)
  case 0
  then show ?case by simp
next
  case (Suc n)
  obtain r s' where a: "attempt h k s = (r, s')" by force
  then have buf: "TxBuffer s' = TxBuffer s" using attempt_TxBuffer [of h k s] by simp
  obtain p1 where p1: "trace s' = trace s @ p1" "\<forall>e\<in>set p1. loop_event h (TxBuffer s) e"
    using attempt_trace [of h k s] a by auto
  show ?case
  proof (cases r)
    case (Some d)
    with a p1 show ?thesis by auto
  next
    case None
    obtain p2 where p2: "trace (snd (service_loop n h (k + 1) s')) = trace s' @ p2"
      "\<forall>e\<in>set p2. loop_event h (TxBuffer s) e"
      using Suc.IH [of "k + 1" s'] buf by auto
    from a None p1(1) p2(1) have "trace (snd (service_loop (Suc n) h k s)) = trace s @ (p1 @ p2)"
      by simp
    moreover have "\<forall>e\<in>set (p1 @ p2). loop_event h (TxBuffer s) e" using p1(2) p2(2) by auto
    ultimately show ?thesis by blast
  qed
qed

lemma service_loop_snoc:
  "service_loop (Suc n) h k s =
     (case service_loop n h k s of
        (Some c, s') \<Rightarrow> (Some c, s')
      | (None, s') \<Rightarrow> attempt h (k + n) s')"
proof (induction n arbitrary: k s)
  case 0
  show ?case by (cases "attempt h k s") (auto split: option.splits)
next
  case (Suc n)
  obtain r s' where a: "attempt h k s = (r, s')" by force
  show ?case
  proof (cases r)
    case (Some d)
    with a show ?thesis by simp
  next
    case None
    have "service_loop (Suc (Suc n)) h k s = service_loop (Suc n) h (k + 1) s'"
      using a None by simp
    also have "\<dots> = (case service_loop n h (k + 1) s' of
        (Some c, s'') \<Rightarrow> (Some c, s'') | (None, s'') \<Rightarrow> attempt h (k + 1 + n) s'')"
      by (rule Suc.IH)
    also have "\<dots> = (case service_loop (Suc n) h k s of
        (Some c, s'') \<Rightarrow> (Some c, s'') | (None, s'') \<Rightarrow> attempt h (k + Suc n) s'')"
      using a None by (simp split: prod.splits option.splits)
    finally show ?thesis .
  qed
qed

lemma service_loop_halted:
  "fst (service_loop n h k s) = Some c \<Longrightarrow> service_loop (n + m) h k s = service_loop n h k s"
proof (induction m)
  case 0
  then show ?case by simp
next
  case (Suc m)
  then have eq: "service_loop (n + m) h k s = service_loop n h k s" by simp
  obtain s' where "service_loop n h k s = (Some c, s')"
    using Suc.prems by (cases "service_loop n h k s") simp
  with eq show ?case using service_loop_snoc [of "n + m" h k s] by simp
qed

lemma main_ready:
  "LookupConfig_result h \<noteq> 0 \<Longrightarrow> CfgInitialize_status h = XST_SUCCESS \<Longrightarrow>
   main n h = service_loop n h 0 (ready_state h)"
proof -
  assume a: "LookupConfig_result h \<noteq> 0" "CfgInitialize_status h = XST_SUCCESS"
  let ?s3 = "\<lparr>TxBuffer = replicate IMG_LENGTH 0, DMA_Cfg = LookupConfig_result h,
              trace = [Printf msg_welcome [], LookupConfig (DMA_DEV_ID h),
                       CfgInitialize (LookupConfig_result h),
                       Printf msg_init_success [XST_SUCCESS]]\<rparr>"
  have buf: "TxBuffer (copy_loop 0 h ?s3) = map (hex_values h) [0..<IMG_LENGTH]"
    by (rule copy_loop_populates) simp
  have "copy_loop 0 h ?s3 = ?s3\<lparr>TxBuffer := map (hex_values h) [0..<IMG_LENGTH]\<rparr>"
    using buf copy_loop_trace [of 0 h ?s3] copy_loop_DMA_Cfg [of 0 h ?s3]
    by (cases "copy_loop 0 h ?s3") simp
  then show ?thesis using a
    by (simp add: main_def Let_def emit_def init_state_def ready_state_def)
qed

lemma main_lookup_failed:
  "LookupConfig_result h = 0 \<Longrightarrow>
   main n h = (Some XST_FAILURE,
     init_state\<lparr>trace := [Printf msg_welcome [], LookupConfig (DMA_DEV_ID h),
                          Printf msg_lookup_failed []]\<rparr>)"
  by (simp add: main_def Let_def emit_def init_state_def)

lemma main_init_failed:
  "LookupConfig_result h \<noteq> 0 \<Longrightarrow> CfgInitialize_status h \<noteq> XST_SUCCESS \<Longrightarrow>
   main n h = (Some XST_FAILURE,
     init_state\<lparr>DMA_Cfg := LookupConfig_result h,
                trace := [Printf msg_welcome [], LookupConfig (DMA_DEV_ID h),
                          CfgInitialize (LookupConfig_result h),
                          Printf msg_init_failed [CfgInitialize_status h]]\<rparr>)"
  by (simp add: main_def Let_def emit_def init_state_def)

lemma main_snoc:
  "main (Suc n) h =
     (case main n h of
        (Some c, s') \<Rightarrow> (Some c, s')
      | (None, s') \<Rightarrow> attempt h n s')"
proof (cases "LookupConfig_result h = 0")
  case True
  then show ?thesis by (simp add: main_lookup_failed)
next
  case False
  show ?thesis
  proof (cases "CfgInitialize_status h = XST_SUCCESS")
    case True
    with False show ?thesis
      using service_loop_snoc [of n h 0 "ready_state h"]
      by (simp add: main_ready split: prod.splits option.splits)
  next
    case b: False
    with False show ?thesis by (simp add: main_init_failed)
  qed
qed

lemma main_halted:
  "fst (main n h) = Some c \<Longrightarrow> main (n + m) h = main n h"
proof (induction m)
  case 0
  then show ?case by simp
next
  case (Suc m)
  then have eq: "main (n + m) h = main n h" by simp
  obtain s' where "main n h = (Some c, s')"
    using Suc.prems by (cases "main n h") simp
  with eq show ?case using main_snoc [of "n + m" h] by simp
qed

lemma main_code: "fst (main n h) = Some c \<Longrightarrow> c = XST_FAILURE"
proof (cases "LookupConfig_result h = 0")
  case True
  assume "fst (main n h) = Some c"
  with True show ?thesis by (simp add: main_lookup_failed)
next
  case False
  assume c: "fst (main n h) = Some c"
  show ?thesis
  proof (cases "CfgInitialize_status h = XST_SUCCESS")
    case True
    with False c show ?thesis
      using service_loop_code [of n h 0 "ready_state h" c] by (simp add: main_ready)
  next
    case b: False
    with False c show ?thesis by (simp add: main_init_failed)
  qed
qed

lemma transfer_length_value: "transfer_length = 692224"
  by (simp add: transfer_length_def IMG_LENGTH_def)

lemma flush_length_value: "flush_length = 692224"
  by (simp add: flush_length_def IMG_LENGTH_def)

subsection \<open>The properties of the specification\<close>

text \<open>
  C1. When the transfer has been started and every one of the 1,000,000 busy checks of
  the attempt reports busy, the poll loop makes exactly 1,000,000 checks, each followed
  by \<open>usleep(1)\<close>, leaves with \<open>TimeOut = 0\<close>, and the pass reports the timeout
  and returns \<open>XST_FAILURE\<close>: no fewer checks and no more.
\<close>
theorem timeout_after_exact_budget:
  assumes "SimpleTransfer_status h k = XST_SUCCESS"
    and "\<forall>j<POLL_TIMEOUT_COUNTER. Busy_result h k j \<noteq> 0"
  shows "poll POLL_TIMEOUT_COUNTER h k 0 s =
           (0, s\<lparr>trace := trace s @
                  concat (replicate 1000000 [Busy XAXIDMA_DMA_TO_DEVICE, Usleep 1])\<rparr>) \<and>
         attempt h k s =
           (Some XST_FAILURE,
            s\<lparr>trace := trace s @
               [SimpleTransfer (TxBuffer_addr h) transfer_length XAXIDMA_DMA_TO_DEVICE
                  (TxBuffer s)] @
               concat (replicate 1000000 [Busy XAXIDMA_DMA_TO_DEVICE, Usleep 1]) @
               [Printf msg_timed_out []]\<rparr>)"
proof -
  have n: "POLL_TIMEOUT_COUNTER = 1000000" by (simp add: POLL_TIMEOUT_COUNTER_def)
  have "poll POLL_TIMEOUT_COUNTER h k 0 s =
      (0, s\<lparr>trace := trace s @
         concat (replicate POLL_TIMEOUT_COUNTER [Busy XAXIDMA_DMA_TO_DEVICE, Usleep 1])\<rparr>)"
    using assms(2) by (intro poll_all_busy) simp
  moreover note attempt_timeout [OF assms, of s]
  ultimately show ?thesis unfolding n by simp
qed

theorem timeout_after_exact_budget_witness:
  "SimpleTransfer_status hw_stuck 0 = XST_SUCCESS \<and>
   Busy_result hw_stuck 0 999999 \<noteq> 0 \<and>
   attempt hw_stuck 0 init_state =
     (Some XST_FAILURE,
      init_state\<lparr>trace :=
         [SimpleTransfer 0x1100000 692224 XAXIDMA_DMA_TO_DEVICE (replicate IMG_LENGTH 0)] @
         concat (replicate 1000000 [Busy XAXIDMA_DMA_TO_DEVICE, Usleep 1]) @
         [Printf msg_timed_out []]\<rparr>)"
proof -
  have a: "SimpleTransfer_status hw_stuck 0 = XST_SUCCESS"
    by (simp add: hw_stuck_def XST_SUCCESS_def)
  have b: "\<forall>j<POLL_TIMEOUT_COUNTER. Busy_result hw_stuck 0 j \<noteq> 0"
    by (simp add: hw_stuck_def)
  show ?thesis
    using a b timeout_after_exact_budget [OF a b, of init_state]
    by (simp add: hw_stuck_def init_state_def transfer_length_value)
qed

text \<open>
  C2. When the first check that reports not busy is check number \<open>j0\<close> (counted from
  0) and \<open>j0\<close> is within the budget, the poll loop makes the \<open>j0\<close> busy checks before
  it, each followed by the wait, then that one check, prints the completion message and
  leaves with \<open>TimeOut = POLL_TIMEOUT_COUNTER - j0\<close>: nothing of the remaining budget
  is waited out. For \<open>j0 = 0\<close> there is exactly one check, no wait, and \<open>TimeOut\<close> is
  still 1,000,000. The pass then ends without returning, so the next transfer follows.
\<close>
theorem completion_leaves_poll_loop_at_once:
  assumes "SimpleTransfer_status h k = XST_SUCCESS"
    and "j0 < POLL_TIMEOUT_COUNTER"
    and "Busy_result h k j0 = 0"
    and "\<forall>j<j0. Busy_result h k j \<noteq> 0"
  shows "poll POLL_TIMEOUT_COUNTER h k 0 s =
           (POLL_TIMEOUT_COUNTER - j0,
            s\<lparr>trace := trace s @
               concat (replicate j0 [Busy XAXIDMA_DMA_TO_DEVICE, Usleep 1]) @
               [Busy XAXIDMA_DMA_TO_DEVICE, Printf msg_completed []]\<rparr>) \<and>
         (j0 = 0 \<longrightarrow>
            poll POLL_TIMEOUT_COUNTER h k 0 s =
              (1000000,
               s\<lparr>trace := trace s @
                  [Busy XAXIDMA_DMA_TO_DEVICE, Printf msg_completed []]\<rparr>)) \<and>
         attempt h k s =
           (None,
            s\<lparr>trace := trace s @
               [SimpleTransfer (TxBuffer_addr h) transfer_length XAXIDMA_DMA_TO_DEVICE
                  (TxBuffer s)] @
               concat (replicate j0 [Busy XAXIDMA_DMA_TO_DEVICE, Usleep 1]) @
               [Busy XAXIDMA_DMA_TO_DEVICE, Printf msg_completed [],
                Printf msg_image_sent []]\<rparr>)"
proof -
  have p: "poll POLL_TIMEOUT_COUNTER h k 0 s =
           (POLL_TIMEOUT_COUNTER - j0,
            s\<lparr>trace := trace s @
               concat (replicate j0 [Busy XAXIDMA_DMA_TO_DEVICE, Usleep 1]) @
               [Busy XAXIDMA_DMA_TO_DEVICE, Printf msg_completed []]\<rparr>)"
    using assms(2-4) poll_first_idle [of j0 POLL_TIMEOUT_COUNTER h k 0 s] by simp
  have q: "j0 = 0 \<longrightarrow>
            poll POLL_TIMEOUT_COUNTER h k 0 s =
              (1000000,
               s\<lparr>trace := trace s @
                  [Busy XAXIDMA_DMA_TO_DEVICE, Printf msg_completed []]\<rparr>)"
    using p by (simp add: POLL_TIMEOUT_COUNTER_def)
  from p q attempt_completed [OF assms, of s] show ?thesis by blast
qed

theorem completion_leaves_poll_loop_at_once_witness:
  "poll POLL_TIMEOUT_COUNTER (hw_stuck\<lparr>Busy_result := (\<lambda>k j. 0)\<rparr>) 0 0 init_state =
     (1000000, init_state\<lparr>trace := [Busy XAXIDMA_DMA_TO_DEVICE, Printf msg_completed []]\<rparr>) \<and>
   poll POLL_TIMEOUT_COUNTER (hw_stuck\<lparr>Busy_result := (\<lambda>k j. if j < 2 then 1 else 0)\<rparr>) 0 0
       init_state =
     (999998,
      init_state\<lparr>trace :=
         [Busy XAXIDMA_DMA_TO_DEVICE, Usleep 1, Busy XAXIDMA_DMA_TO_DEVICE, Usleep 1,
          Busy XAXIDMA_DMA_TO_DEVICE, Printf msg_completed []]\<rparr>)"
proof -
  let ?h0 = "hw_stuck\<lparr>Busy_result := (\<lambda>k j. 0)\<rparr>"
  let ?h2 = "hw_stuck\<lparr>Busy_result := (\<lambda>k j. if j < 2 then 1 else 0)\<rparr>"
  have a0: "SimpleTransfer_status ?h0 0 = XST_SUCCESS"
    and a2: "SimpleTransfer_status ?h2 0 = XST_SUCCESS"
    by (simp_all add: hw_stuck_def XST_SUCCESS_def)
  have b0: "0 < POLL_TIMEOUT_COUNTER" and b2: "2 < POLL_TIMEOUT_COUNTER"
    by (simp_all add: POLL_TIMEOUT_COUNTER_def)
  have c0: "Busy_result ?h0 0 0 = 0" and c2: "Busy_result ?h2 0 2 = 0" by simp_all
  have d0: "\<forall>j<0. Busy_result ?h0 0 j \<noteq> 0" and d2: "\<forall>j<2. Busy_result ?h2 0 j \<noteq> 0"
    by simp_all
  show ?thesis
    using completion_leaves_poll_loop_at_once [OF a0 b0 c0 d0, of init_state]
      completion_leaves_poll_loop_at_once [OF a2 b2 c2 d2, of init_state]
    by (simp add: init_state_def POLL_TIMEOUT_COUNTER_def numeral_2_eq_2)
qed

text \<open>
  C3. Each of the four failure conditions ends the program with \<open>XST_FAILURE\<close>, its own
  message being the last event of the trace: a failed lookup and a failed initialisation
  for every bound \<open>n\<close>; a rejected start or an exhausted poll budget in pass \<open>k\<close>
  (reached with the loop still running, \<open>main k h = (None, s)\<close>) for every bound
  \<open>n > k\<close>. The result no longer depends on \<open>n\<close>, so no event, and in particular
  no further transfer start, ever follows the failure message.
\<close>
theorem failures_halt_service_loop:
  "(LookupConfig_result h = 0 \<longrightarrow>
      (\<forall>n. main n h =
         (Some XST_FAILURE,
          init_state\<lparr>trace := [Printf msg_welcome [], LookupConfig (DMA_DEV_ID h),
                               Printf msg_lookup_failed []]\<rparr>))) \<and>
   (LookupConfig_result h \<noteq> 0 \<and> CfgInitialize_status h \<noteq> XST_SUCCESS \<longrightarrow>
      (\<forall>n. main n h =
         (Some XST_FAILURE,
          init_state\<lparr>DMA_Cfg := LookupConfig_result h,
                     trace := [Printf msg_welcome [], LookupConfig (DMA_DEV_ID h),
                               CfgInitialize (LookupConfig_result h),
                               Printf msg_init_failed [CfgInitialize_status h]]\<rparr>))) \<and>
   (main k h = (None, s) \<and> SimpleTransfer_status h k \<noteq> XST_SUCCESS \<longrightarrow>
      (\<forall>n>k. main n h =
         (Some XST_FAILURE,
          s\<lparr>trace := trace s @
             [SimpleTransfer (TxBuffer_addr h) transfer_length XAXIDMA_DMA_TO_DEVICE
                (TxBuffer s),
              Printf msg_transfer_failed [SimpleTransfer_status h k]]\<rparr>))) \<and>
   (main k h = (None, s) \<and> SimpleTransfer_status h k = XST_SUCCESS \<and>
    (\<forall>j<POLL_TIMEOUT_COUNTER. Busy_result h k j \<noteq> 0) \<longrightarrow>
      (\<forall>n>k. main n h =
         (Some XST_FAILURE,
          s\<lparr>trace := trace s @
             [SimpleTransfer (TxBuffer_addr h) transfer_length XAXIDMA_DMA_TO_DEVICE
                (TxBuffer s)] @
             concat (replicate POLL_TIMEOUT_COUNTER [Busy XAXIDMA_DMA_TO_DEVICE, Usleep 1]) @
             [Printf msg_timed_out []]\<rparr>)))"
proof -
  have later: "main n h = (Some c, s')" if "main (Suc k) h = (Some c, s')" and "k < n"
    for n c s'
  proof -
    from that(2) obtain m where "n = Suc k + m" using less_iff_Suc_add by auto
    with that(1) show ?thesis using main_halted [of "Suc k" h c m] by simp
  qed
  have rejected: "main n h =
         (Some XST_FAILURE,
          s\<lparr>trace := trace s @
             [SimpleTransfer (TxBuffer_addr h) transfer_length XAXIDMA_DMA_TO_DEVICE
                (TxBuffer s),
              Printf msg_transfer_failed [SimpleTransfer_status h k]]\<rparr>)"
    if "main k h = (None, s)" and "SimpleTransfer_status h k \<noteq> XST_SUCCESS" and "k < n" for n
  proof (rule later [OF _ that(3)])
    show "main (Suc k) h =
         (Some XST_FAILURE,
          s\<lparr>trace := trace s @
             [SimpleTransfer (TxBuffer_addr h) transfer_length XAXIDMA_DMA_TO_DEVICE
                (TxBuffer s),
              Printf msg_transfer_failed [SimpleTransfer_status h k]]\<rparr>)"
      using that(1) attempt_rejected [OF that(2), of s] by (simp add: main_snoc)
  qed
  have timeout: "main n h =
         (Some XST_FAILURE,
          s\<lparr>trace := trace s @
             [SimpleTransfer (TxBuffer_addr h) transfer_length XAXIDMA_DMA_TO_DEVICE
                (TxBuffer s)] @
             concat (replicate POLL_TIMEOUT_COUNTER [Busy XAXIDMA_DMA_TO_DEVICE, Usleep 1]) @
             [Printf msg_timed_out []]\<rparr>)"
    if "main k h = (None, s)" and "SimpleTransfer_status h k = XST_SUCCESS"
      and "\<forall>j<POLL_TIMEOUT_COUNTER. Busy_result h k j \<noteq> 0" and "k < n" for n
  proof (rule later [OF _ that(4)])
    show "main (Suc k) h =
         (Some XST_FAILURE,
          s\<lparr>trace := trace s @
             [SimpleTransfer (TxBuffer_addr h) transfer_length XAXIDMA_DMA_TO_DEVICE
                (TxBuffer s)] @
             concat (replicate POLL_TIMEOUT_COUNTER [Busy XAXIDMA_DMA_TO_DEVICE, Usleep 1]) @
             [Printf msg_timed_out []]\<rparr>)"
      using that(1) attempt_timeout [OF that(2,3), of s] by (simp add: main_snoc)
  qed
  show ?thesis
    using main_lookup_failed [of h] main_init_failed [of h] rejected timeout by blast
qed

lemma main_zero_ready:
  "LookupConfig_result h \<noteq> 0 \<Longrightarrow> CfgInitialize_status h = XST_SUCCESS \<Longrightarrow>
   main 0 h = (None, ready_state h)"
  by (simp add: main_ready)

theorem failures_halt_service_loop_witness:
  "main 7 (hw_stuck\<lparr>LookupConfig_result := 0\<rparr>) =
     (Some XST_FAILURE,
      init_state\<lparr>trace := [Printf msg_welcome [], LookupConfig 0,
                           Printf msg_lookup_failed []]\<rparr>) \<and>
   main 7 (hw_stuck\<lparr>CfgInitialize_status := 5\<rparr>) =
     (Some XST_FAILURE,
      init_state\<lparr>DMA_Cfg := 0x1000,
                 trace := [Printf msg_welcome [], LookupConfig 0, CfgInitialize 0x1000,
                           Printf msg_init_failed [5]]\<rparr>) \<and>
   main 7 (hw_stuck\<lparr>SimpleTransfer_status := (\<lambda>k. 15)\<rparr>) =
     (Some XST_FAILURE,
      (ready_state (hw_stuck\<lparr>SimpleTransfer_status := (\<lambda>k. 15)\<rparr>))
        \<lparr>trace := trace (ready_state (hw_stuck\<lparr>SimpleTransfer_status := (\<lambda>k. 15)\<rparr>)) @
           [SimpleTransfer 0x1100000 692224 XAXIDMA_DMA_TO_DEVICE
              (map of_nat [0..<IMG_LENGTH]),
            Printf msg_transfer_failed [15]]\<rparr>) \<and>
   main 7 hw_stuck =
     (Some XST_FAILURE,
      (ready_state hw_stuck)
        \<lparr>trace := trace (ready_state hw_stuck) @
           [SimpleTransfer 0x1100000 692224 XAXIDMA_DMA_TO_DEVICE
              (map of_nat [0..<IMG_LENGTH])] @
           concat (replicate POLL_TIMEOUT_COUNTER [Busy XAXIDMA_DMA_TO_DEVICE, Usleep 1]) @
           [Printf msg_timed_out []]\<rparr>)"
proof -
  let ?h1 = "hw_stuck\<lparr>LookupConfig_result := 0\<rparr>"
  let ?h2 = "hw_stuck\<lparr>CfgInitialize_status := 5\<rparr>"
  let ?h3 = "hw_stuck\<lparr>SimpleTransfer_status := (\<lambda>k. 15)\<rparr>"
  have r3: "main 0 ?h3 = (None, ready_state ?h3)"
    by (rule main_zero_ready) (simp_all add: hw_stuck_def XST_SUCCESS_def)
  have r4: "main 0 hw_stuck = (None, ready_state hw_stuck)"
    by (rule main_zero_ready) (simp_all add: hw_stuck_def XST_SUCCESS_def)
  have p1: "main 7 ?h1 =
     (Some XST_FAILURE,
      init_state\<lparr>trace := [Printf msg_welcome [], LookupConfig 0,
                           Printf msg_lookup_failed []]\<rparr>)"
    using failures_halt_service_loop [of ?h1 0 init_state] by (simp add: hw_stuck_def)
  have p2: "main 7 ?h2 =
     (Some XST_FAILURE,
      init_state\<lparr>DMA_Cfg := 0x1000,
                 trace := [Printf msg_welcome [], LookupConfig 0, CfgInitialize 0x1000,
                           Printf msg_init_failed [5]]\<rparr>)"
    using failures_halt_service_loop [of ?h2 0 init_state]
    by (simp add: hw_stuck_def XST_SUCCESS_def)
  have p3: "main 7 ?h3 =
     (Some XST_FAILURE,
      (ready_state ?h3)
        \<lparr>trace := trace (ready_state ?h3) @
           [SimpleTransfer 0x1100000 692224 XAXIDMA_DMA_TO_DEVICE
              (map of_nat [0..<IMG_LENGTH]),
            Printf msg_transfer_failed [15]]\<rparr>)"
    using failures_halt_service_loop [of ?h3 0 "ready_state ?h3"] r3
    by (simp add: hw_stuck_def XST_SUCCESS_def transfer_length_value ready_state_def)
  have p4: "main 7 hw_stuck =
     (Some XST_FAILURE,
      (ready_state hw_stuck)
        \<lparr>trace := trace (ready_state hw_stuck) @
           [SimpleTransfer 0x1100000 692224 XAXIDMA_DMA_TO_DEVICE
              (map of_nat [0..<IMG_LENGTH])] @
           concat (replicate POLL_TIMEOUT_COUNTER [Busy XAXIDMA_DMA_TO_DEVICE, Usleep 1]) @
           [Printf msg_timed_out []]\<rparr>)"
    using failures_halt_service_loop [of hw_stuck 0 "ready_state hw_stuck"] r4
    by (simp add: hw_stuck_def XST_SUCCESS_def transfer_length_value ready_state_def)
  from p1 p2 p3 p4 show ?thesis by blast
qed

text \<open>
  C4. After the copy loop, started on a buffer of \<open>IMG_LENGTH\<close> words, the word at
  every index \<open>i < IMG_LENGTH\<close> of \<open>TxBuffer\<close> is \<open>hex_values[i]\<close>.
\<close>
theorem copy_loop_payload_fidelity:
  assumes "length (TxBuffer s) = IMG_LENGTH" and "i < IMG_LENGTH"
  shows "TxBuffer (copy_loop 0 h s) ! i = hex_values h i \<and>
         length (TxBuffer (copy_loop 0 h s)) = IMG_LENGTH"
  using assms by (simp add: copy_loop_populates)

theorem copy_loop_payload_fidelity_witness:
  "length (TxBuffer init_state) = IMG_LENGTH \<and> 173055 < IMG_LENGTH \<and>
   TxBuffer (copy_loop 0 hw_stuck init_state) ! 173055 = 173055"
proof -
  have a: "length (TxBuffer init_state) = IMG_LENGTH" by (simp add: init_state_def)
  have b: "173055 < IMG_LENGTH" by (simp add: IMG_LENGTH_def)
  show ?thesis
    using a b copy_loop_payload_fidelity [OF a b, of hw_stuck] by (simp add: hw_stuck_def)
qed

lemma attempt_trace_hd:
  "\<exists>rest. trace (snd (attempt h k s)) =
     trace s @ SimpleTransfer (TxBuffer_addr h) transfer_length XAXIDMA_DMA_TO_DEVICE
                 (TxBuffer s) # rest"
proof -
  let ?st = "SimpleTransfer (TxBuffer_addr h) transfer_length XAXIDMA_DMA_TO_DEVICE (TxBuffer s)"
  obtain post where "trace (snd (poll POLL_TIMEOUT_COUNTER h k 0 (emit ?st s))) =
      trace (emit ?st s) @ post"
    using poll_trace [of POLL_TIMEOUT_COUNTER h k 0 "emit ?st s" "TxBuffer s"] by blast
  then show ?thesis
    by (cases "poll POLL_TIMEOUT_COUNTER h k 0 (emit ?st s)")
       (auto simp: attempt_def Let_def emit_def)
qed

lemma service_loop_trace_hd:
  "\<exists>rest. trace (snd (service_loop (Suc n) h k s)) =
     trace s @ SimpleTransfer (TxBuffer_addr h) transfer_length XAXIDMA_DMA_TO_DEVICE
                 (TxBuffer s) # rest"
proof -
  obtain r s' where a: "attempt h k s = (r, s')" by force
  obtain rest where r: "trace s' =
     trace s @ SimpleTransfer (TxBuffer_addr h) transfer_length XAXIDMA_DMA_TO_DEVICE
                 (TxBuffer s) # rest"
    using attempt_trace_hd [of h k s] a by auto
  show ?thesis
  proof (cases r)
    case (Some c)
    with a r show ?thesis by simp
  next
    case None
    obtain post where "trace (snd (service_loop n h (k + 1) s')) = trace s' @ post"
      using service_loop_trace [of n h "k + 1" s'] by blast
    with a None r show ?thesis by simp
  qed
qed

text \<open>
  C5. When the lookup and the initialisation succeed, the trace of every run starts with
  the five events of the start-up, the last of which is the cache flush over the buffer
  (692224 bytes), made when the buffer already holds the image table. No transfer start
  precedes it, no second flush follows it however many passes the service loop makes, and
  the first event after it is the first transfer start.
\<close>
theorem flush_once_before_first_transfer:
  assumes "LookupConfig_result h \<noteq> 0" and "CfgInitialize_status h = XST_SUCCESS"
  shows "\<exists>post.
           trace (snd (main n h)) =
             [Printf msg_welcome [], LookupConfig (DMA_DEV_ID h),
              CfgInitialize (LookupConfig_result h), Printf msg_init_success [XST_SUCCESS],
              DCacheFlushRange (TxBuffer_addr h) 692224 (map (hex_values h) [0..<IMG_LENGTH])]
             @ post \<and>
           (\<forall>a l p. DCacheFlushRange a l p \<notin> set post) \<and>
           (0 < n \<longrightarrow>
              (\<exists>rest. post =
                 SimpleTransfer (TxBuffer_addr h) 692224 XAXIDMA_DMA_TO_DEVICE
                   (map (hex_values h) [0..<IMG_LENGTH]) # rest))"
proof -
  let ?r = "ready_state h"
  obtain post where post: "trace (snd (service_loop n h 0 ?r)) = trace ?r @ post"
    "\<forall>e\<in>set post. loop_event h (TxBuffer ?r) e"
    using service_loop_trace [of n h 0 ?r] by blast
  have noflush: "\<forall>a l p. DCacheFlushRange a l p \<notin> set post"
  proof (intro allI notI)
    fix a l p assume "DCacheFlushRange a l p \<in> set post"
    with post(2) have "loop_event h (TxBuffer ?r) (DCacheFlushRange a l p)" by blast
    then show False by simp
  qed
  have first: "\<exists>rest. post =
      SimpleTransfer (TxBuffer_addr h) 692224 XAXIDMA_DMA_TO_DEVICE
        (map (hex_values h) [0..<IMG_LENGTH]) # rest" if "0 < n"
  proof -
    from that obtain m where m: "n = Suc m" by (cases n) simp_all
    obtain rest where "trace (snd (service_loop (Suc m) h 0 ?r)) =
        trace ?r @ SimpleTransfer (TxBuffer_addr h) transfer_length XAXIDMA_DMA_TO_DEVICE
                     (TxBuffer ?r) # rest"
      using service_loop_trace_hd [of m h 0 ?r] by blast
    with post(1) m show ?thesis by (simp add: transfer_length_value ready_state_def)
  qed
  have "trace (snd (main n h)) = trace ?r @ post"
    using assms post(1) by (simp add: main_ready)
  then have "trace (snd (main n h)) =
             [Printf msg_welcome [], LookupConfig (DMA_DEV_ID h),
              CfgInitialize (LookupConfig_result h), Printf msg_init_success [XST_SUCCESS],
              DCacheFlushRange (TxBuffer_addr h) 692224 (map (hex_values h) [0..<IMG_LENGTH])]
             @ post"
    by (simp add: ready_state_def flush_length_value)
  with noflush first show ?thesis by blast
qed

theorem flush_once_before_first_transfer_witness:
  "\<exists>post.
     trace (snd (main 3 hw_stuck)) =
       [Printf msg_welcome [], LookupConfig 0, CfgInitialize 0x1000,
        Printf msg_init_success [0],
        DCacheFlushRange 0x1100000 692224 (map of_nat [0..<IMG_LENGTH])] @ post \<and>
     (\<forall>a l p. DCacheFlushRange a l p \<notin> set post) \<and>
     (\<exists>rest. post =
        SimpleTransfer 0x1100000 692224 XAXIDMA_DMA_TO_DEVICE (map of_nat [0..<IMG_LENGTH])
          # rest)"
proof -
  have a: "LookupConfig_result hw_stuck \<noteq> 0" by (simp add: hw_stuck_def)
  have b: "CfgInitialize_status hw_stuck = XST_SUCCESS"
    by (simp add: hw_stuck_def XST_SUCCESS_def)
  show ?thesis
    using flush_once_before_first_transfer [OF a b, of 3]
    by (simp add: hw_stuck_def XST_SUCCESS_def)
qed

text \<open>
  C6. The service loop never writes to \<open>TxBuffer\<close>: after any number of passes the
  buffer is the one the loop was entered with, and every transfer start of those passes
  hands over exactly those contents. In a run of \<open>main\<close> that reaches the loop these
  contents are the image table.
\<close>
theorem buffer_never_mutated_in_loop:
  "TxBuffer (snd (service_loop n h k s)) = TxBuffer s \<and>
   (\<exists>post. trace (snd (service_loop n h k s)) = trace s @ post \<and>
      (\<forall>a l d p. SimpleTransfer a l d p \<in> set post \<longrightarrow> p = TxBuffer s)) \<and>
   (LookupConfig_result h \<noteq> 0 \<and> CfgInitialize_status h = XST_SUCCESS \<longrightarrow>
      TxBuffer (snd (main n h)) = map (hex_values h) [0..<IMG_LENGTH] \<and>
      (\<forall>a l d p. SimpleTransfer a l d p \<in> set (trace (snd (main n h))) \<longrightarrow>
         p = map (hex_values h) [0..<IMG_LENGTH]))"
proof -
  have loop: "\<exists>post. trace (snd (service_loop n h k s)) = trace s @ post \<and>
      (\<forall>a l d p. SimpleTransfer a l d p \<in> set post \<longrightarrow> p = TxBuffer s)" for k s
  proof -
    obtain post where post: "trace (snd (service_loop n h k s)) = trace s @ post"
      "\<forall>e\<in>set post. loop_event h (TxBuffer s) e"
      using service_loop_trace [of n h k s] by blast
    have "\<forall>a l d p. SimpleTransfer a l d p \<in> set post \<longrightarrow> p = TxBuffer s"
    proof (intro allI impI)
      fix a l d p assume "SimpleTransfer a l d p \<in> set post"
      with post(2) have "loop_event h (TxBuffer s) (SimpleTransfer a l d p)" by blast
      then show "p = TxBuffer s" by simp
    qed
    with post(1) show ?thesis by blast
  qed
  have whole: "TxBuffer (snd (main n h)) = map (hex_values h) [0..<IMG_LENGTH] \<and>
      (\<forall>a l d p. SimpleTransfer a l d p \<in> set (trace (snd (main n h))) \<longrightarrow>
         p = map (hex_values h) [0..<IMG_LENGTH])"
    if "LookupConfig_result h \<noteq> 0" and "CfgInitialize_status h = XST_SUCCESS"
  proof -
    have m: "main n h = service_loop n h 0 (ready_state h)" using that by (rule main_ready)
    obtain post where post: "trace (snd (main n h)) = trace (ready_state h) @ post"
      "\<forall>a l d p. SimpleTransfer a l d p \<in> set post \<longrightarrow> p = TxBuffer (ready_state h)"
      using loop [of 0 "ready_state h"] m by auto
    have "\<forall>a l d p. SimpleTransfer a l d p \<in> set (trace (snd (main n h))) \<longrightarrow>
         p = map (hex_values h) [0..<IMG_LENGTH]"
      using post by (auto simp: ready_state_def)
    moreover have "TxBuffer (snd (main n h)) = map (hex_values h) [0..<IMG_LENGTH]"
      using m service_loop_TxBuffer [of n h 0 "ready_state h"] by (simp add: ready_state_def)
    ultimately show ?thesis by blast
  qed
  show ?thesis using service_loop_TxBuffer [of n h k s] loop [of k s] whole by blast
qed

lemma main_one_rejected:
  "LookupConfig_result h \<noteq> 0 \<Longrightarrow> CfgInitialize_status h = XST_SUCCESS \<Longrightarrow>
   SimpleTransfer_status h 0 \<noteq> XST_SUCCESS \<Longrightarrow>
   trace (snd (main 1 h)) =
     trace (ready_state h) @
     [SimpleTransfer (TxBuffer_addr h) transfer_length XAXIDMA_DMA_TO_DEVICE
        (map (hex_values h) [0..<IMG_LENGTH]),
      Printf msg_transfer_failed [SimpleTransfer_status h 0]]"
  using service_loop.simps(2) [of 0 h 0 "ready_state h"]
  by (simp add: main_ready attempt_rejected) (simp add: ready_state_def)

theorem buffer_never_mutated_in_loop_witness:
  "SimpleTransfer 0x1100000 692224 XAXIDMA_DMA_TO_DEVICE (map of_nat [0..<IMG_LENGTH])
     \<in> set (trace (snd (main 1 (hw_stuck\<lparr>SimpleTransfer_status := (\<lambda>k. 15)\<rparr>)))) \<and>
   TxBuffer (snd (main 1 (hw_stuck\<lparr>SimpleTransfer_status := (\<lambda>k. 15)\<rparr>))) =
     map of_nat [0..<IMG_LENGTH]"
proof -
  let ?h = "hw_stuck\<lparr>SimpleTransfer_status := (\<lambda>k. 15)\<rparr>"
  have a: "LookupConfig_result ?h \<noteq> 0" by (simp add: hw_stuck_def)
  have b: "CfgInitialize_status ?h = XST_SUCCESS" by (simp add: hw_stuck_def XST_SUCCESS_def)
  have c: "SimpleTransfer_status ?h 0 \<noteq> XST_SUCCESS" by (simp add: XST_SUCCESS_def)
  have "SimpleTransfer 0x1100000 692224 XAXIDMA_DMA_TO_DEVICE (map of_nat [0..<IMG_LENGTH])
     \<in> set (trace (snd (main 1 ?h)))"
    using main_one_rejected [OF a b c] by (simp add: hw_stuck_def transfer_length_value)
  moreover have "TxBuffer (snd (main 1 ?h)) = map of_nat [0..<IMG_LENGTH]"
    using buffer_never_mutated_in_loop [of 1 ?h 0 init_state] a b by (simp add: hw_stuck_def)
  ultimately show ?thesis by blast
qed

text \<open>
  C7. Every call of \<open>XAxiDma_SimpleTransfer\<close> in any run of \<open>main\<close> has the address of
  \<open>TxBuffer\<close>, the length \<open>IMG_LENGTH * 4 = 173056 * 4\<close> bytes and the direction
  memory to device.
\<close>
theorem every_transfer_has_the_same_arguments:
  assumes "SimpleTransfer a l d p \<in> set (trace (snd (main n h)))"
  shows "a = TxBuffer_addr h \<and> l = of_nat (IMG_LENGTH * 4) \<and> unat l = 173056 * 4 \<and>
         d = XAXIDMA_DMA_TO_DEVICE"
proof (cases "LookupConfig_result h \<noteq> 0 \<and> CfgInitialize_status h = XST_SUCCESS")
  case True
  then have m: "main n h = service_loop n h 0 (ready_state h)" by (simp add: main_ready)
  obtain post where post: "trace (snd (main n h)) = trace (ready_state h) @ post"
    "\<forall>e\<in>set post. loop_event h (TxBuffer (ready_state h)) e"
    using service_loop_trace [of n h 0 "ready_state h"] m by auto
  from assms post(1) have "SimpleTransfer a l d p \<in> set post" by (auto simp: ready_state_def)
  with post(2) have "loop_event h (TxBuffer (ready_state h)) (SimpleTransfer a l d p)" by blast
  then show ?thesis by (simp add: transfer_length_def IMG_LENGTH_def)
next
  case False
  then have "LookupConfig_result h = 0 \<or>
      (LookupConfig_result h \<noteq> 0 \<and> CfgInitialize_status h \<noteq> XST_SUCCESS)" by blast
  then have "SimpleTransfer a l d p \<notin> set (trace (snd (main n h)))"
    by (auto simp: main_lookup_failed main_init_failed)
  with assms show ?thesis by simp
qed

theorem every_transfer_has_the_same_arguments_witness:
  "SimpleTransfer 0x1100000 692224 XAXIDMA_DMA_TO_DEVICE (map of_nat [0..<IMG_LENGTH])
     \<in> set (trace (snd (main 1 (hw_stuck\<lparr>SimpleTransfer_status := (\<lambda>k. 15)\<rparr>)))) \<and>
   (0x1100000 :: 64 word) = TxBuffer_addr (hw_stuck\<lparr>SimpleTransfer_status := (\<lambda>k. 15)\<rparr>) \<and>
   (692224 :: 32 word) = of_nat (IMG_LENGTH * 4) \<and> unat (692224 :: 32 word) = 173056 * 4"
proof -
  let ?h = "hw_stuck\<lparr>SimpleTransfer_status := (\<lambda>k. 15)\<rparr>"
  have a: "LookupConfig_result ?h \<noteq> 0" by (simp add: hw_stuck_def)
  have b: "CfgInitialize_status ?h = XST_SUCCESS" by (simp add: hw_stuck_def XST_SUCCESS_def)
  have c: "SimpleTransfer_status ?h 0 \<noteq> XST_SUCCESS" by (simp add: XST_SUCCESS_def)
  have m: "SimpleTransfer 0x1100000 692224 XAXIDMA_DMA_TO_DEVICE (map of_nat [0..<IMG_LENGTH])
     \<in> set (trace (snd (main 1 ?h)))"
    using main_one_rejected [OF a b c] by (simp add: hw_stuck_def transfer_length_value)
  from m every_transfer_has_the_same_arguments [OF m] show ?thesis by blast
qed

text \<open>
  C8. When the lookup returns the null pointer, the whole run consists of the welcome
  message, the lookup and the message that the lookup failed; \<open>main\<close> returns
  \<open>XST_FAILURE\<close> with the buffer and everything else as at the start: no
  initialisation, no copy, no flush, no transfer.
\<close>
theorem missing_config_halts_at_once:
  assumes "LookupConfig_result h = 0"
  shows "main n h =
           (Some XST_FAILURE,
            init_state\<lparr>trace := [Printf msg_welcome [], LookupConfig (DMA_DEV_ID h),
                                 Printf msg_lookup_failed []]\<rparr>)"
  using assms by (rule main_lookup_failed)

theorem missing_config_halts_at_once_witness:
  "LookupConfig_result (hw_stuck\<lparr>LookupConfig_result := 0\<rparr>) = 0 \<and>
   main 4 (hw_stuck\<lparr>LookupConfig_result := 0\<rparr>) =
     (Some 1,
      \<lparr>TxBuffer = replicate IMG_LENGTH 0, DMA_Cfg = 0,
       trace = [Printf msg_welcome [], LookupConfig 0, Printf msg_lookup_failed []]\<rparr>)"
proof -
  have a: "LookupConfig_result (hw_stuck\<lparr>LookupConfig_result := 0\<rparr>) = 0" by simp
  show ?thesis
    using a missing_config_halts_at_once [OF a, of 4]
    by (simp add: hw_stuck_def init_state_def XST_FAILURE_def)
qed

text \<open>
  C9. Whenever \<open>main\<close> returns, it returns \<open>XST_FAILURE\<close>, which is not 0. The
  service loop is left only through its two \<open>return XST_FAILURE\<close> statements, so the
  idle loop and \<open>return 0\<close> after it are never reached.
\<close>
theorem main_never_returns_success:
  assumes "fst (main n h) = Some c"
  shows "c = XST_FAILURE \<and> c \<noteq> 0"
  using main_code [OF assms] by (simp add: XST_FAILURE_def)

theorem main_never_returns_success_witness:
  "fst (main 2 (hw_stuck\<lparr>CfgInitialize_status := 5\<rparr>)) = Some 1 \<and> (1 :: 32 word) \<noteq> 0"
proof -
  have a: "fst (main 2 (hw_stuck\<lparr>CfgInitialize_status := 5\<rparr>)) = Some 1"
    by (simp add: main_init_failed hw_stuck_def XST_SUCCESS_def XST_FAILURE_def)
  from a main_never_returns_success [OF a] show ?thesis by blast
qed

text \<open>
  C10. When the lookup or the initialisation fails, \<open>main\<close> returns \<open>XST_FAILURE\<close>
  with \<open>TxBuffer\<close> still in its initial, zeroed state, and the trace holds no transfer
  start and no cache flush.
\<close>
theorem failed_start_up_leaves_buffer_and_engine_untouched:
  assumes "LookupConfig_result h = 0 \<or> CfgInitialize_status h \<noteq> XST_SUCCESS"
  shows "fst (main n h) = Some XST_FAILURE \<and>
         TxBuffer (snd (main n h)) = replicate IMG_LENGTH 0 \<and>
         TxBuffer (snd (main n h)) = TxBuffer init_state \<and>
         (\<forall>a l d p. SimpleTransfer a l d p \<notin> set (trace (snd (main n h)))) \<and>
         (\<forall>a l p. DCacheFlushRange a l p \<notin> set (trace (snd (main n h))))"
proof (cases "LookupConfig_result h = 0")
  case True
  then show ?thesis by (simp add: main_lookup_failed init_state_def)
next
  case False
  with assms have "CfgInitialize_status h \<noteq> XST_SUCCESS" by blast
  with False show ?thesis by (simp add: main_init_failed init_state_def)
qed

theorem failed_start_up_leaves_buffer_and_engine_untouched_witness:
  "fst (main 9 (hw_stuck\<lparr>CfgInitialize_status := 5\<rparr>)) = Some XST_FAILURE \<and>
   TxBuffer (snd (main 9 (hw_stuck\<lparr>CfgInitialize_status := 5\<rparr>))) = replicate IMG_LENGTH 0 \<and>
   fst (main 9 (hw_stuck\<lparr>LookupConfig_result := 0\<rparr>)) = Some XST_FAILURE \<and>
   TxBuffer (snd (main 9 (hw_stuck\<lparr>LookupConfig_result := 0\<rparr>))) = replicate IMG_LENGTH 0"
proof -
  have a: "LookupConfig_result (hw_stuck\<lparr>CfgInitialize_status := 5\<rparr>) = 0 \<or>
      CfgInitialize_status (hw_stuck\<lparr>CfgInitialize_status := 5\<rparr>) \<noteq> XST_SUCCESS"
    by (simp add: XST_SUCCESS_def)
  have b: "LookupConfig_result (hw_stuck\<lparr>LookupConfig_result := 0\<rparr>) = 0 \<or>
      CfgInitialize_status (hw_stuck\<lparr>LookupConfig_result := 0\<rparr>) \<noteq> XST_SUCCESS"
    by simp
  from failed_start_up_leaves_buffer_and_engine_untouched [OF a, of 9]
    failed_start_up_leaves_buffer_and_engine_untouched [OF b, of 9]
  show ?thesis by blast
qed

end
